theory Spec2Isabelle
  imports Main "HOL-Library.AList"
begin

section \<open>JavaScript values used by app.js\<close>

text \<open>
  A JavaScript string is modelled as a \<open>string\<close> whose characters are the code units
  below 256. A value that may be \<open>undefined\<close> (a missing property of a row) is a
  \<open>string option\<close> with \<open>None\<close> for \<open>undefined\<close>. Numbers are modelled as
  mathematical integers: every number app.js handles is produced by \<open>parseInt\<close>,
  \<open>Math.abs\<close> and \<open>+=\<close>, which are exact on integers below \<open>2^53\<close>, and
  \<open>NaN\<close> is the value \<open>None\<close> of \<open>parseInt\<close>.
\<close>

definition ToString :: "string option \<Rightarrow> string" where
  "ToString v = (case v of None \<Rightarrow> ''undefined'' | Some s \<Rightarrow> s)"

text \<open>White space skipped by \<open>parseInt\<close>: TAB, LF, VT, FF, CR, SP and NBSP. The white
  space characters beyond code unit 255 are outside the strings modelled here.\<close>

definition isWhiteSpace :: "char \<Rightarrow> bool" where
  "isWhiteSpace c = (c \<in> set [CHR 0x09, CHR 0x0A, CHR 0x0B, CHR 0x0C, CHR 0x0D, CHR 0x20, CHR 0xA0])"

definition digitValue :: "char \<Rightarrow> int option" where
  "digitValue c =
     (let n = (of_char c :: int) in
      if 48 \<le> n \<and> n \<le> 57 then Some (n - 48)
      else if 97 \<le> n \<and> n \<le> 122 then Some (n - 87)
      else if 65 \<le> n \<and> n \<le> 90 then Some (n - 55)
      else None)"

definition isRadixDigit :: "int \<Rightarrow> char \<Rightarrow> bool" where
  "isRadixDigit R c = (case digitValue c of None \<Rightarrow> False | Some d \<Rightarrow> d < R)"

definition radixValue :: "int \<Rightarrow> string \<Rightarrow> int" where
  "radixValue R Z = foldl (\<lambda>a c. a * R + (case digitValue c of None \<Rightarrow> 0 | Some d \<Rightarrow> d)) 0 Z"

text \<open>
  \<open>parseInt(v)\<close> with no radix argument, after ECMAScript: the argument is converted to
  a string, leading white space is skipped, one sign is read, a prefix \<open>0x\<close> or
  \<open>0X\<close> selects radix 16 (radix 10 otherwise), and the longest prefix of digits of that
  radix is the value. With no digit the result is \<open>NaN\<close>.
\<close>

definition parseInt :: "string option \<Rightarrow> int option" where
  "parseInt v =
     (let S = dropWhile isWhiteSpace (ToString v);
          neg = (S \<noteq> [] \<and> hd S = CHR ''-'');
          S1 = (if S \<noteq> [] \<and> (hd S = CHR ''+'' \<or> hd S = CHR ''-'') then tl S else S);
          hex = (take 2 S1 = ''0x'' \<or> take 2 S1 = ''0X'');
          R = (if hex then 16 else 10);
          S2 = (if hex then drop 2 S1 else S1);
          Z = takeWhile (isRadixDigit R) S2
      in if Z = [] then None
         else Some ((if neg then - 1 else 1) * radixValue R Z))"

section \<open>Rows, constants and country accumulators\<close>

text \<open>
  A row is the object csvtojson builds for one CSV line: a property per column, holding
  the field as a string; reading a column the line does not have gives \<open>undefined\<close>.
\<close>

type_synonym row = "string \<Rightarrow> string option"

text \<open>
  Modelled from the spec: constants.js is not among the sources. The column names are the
  header of the spec's end-to-end scenario and the sentinel is the spec's
  \<open>"Worldwide"\<close>.
\<close>

definition COL_COUNTRY :: string where "COL_COUNTRY = ''Country_Region''"
definition COL_CONFIRMED :: string where "COL_CONFIRMED = ''Confirmed''"
definition COL_DEATHS :: string where "COL_DEATHS = ''Deaths''"
definition COL_RECOVERED :: string where "COL_RECOVERED = ''Recovered''"
definition COL_ACTIVE :: string where "COL_ACTIVE = ''Active''"
definition COL_LAST_UPDATE :: string where "COL_LAST_UPDATE = ''Last_Update''"
definition WORLDWIDE :: string where "WORLDWIDE = ''Worldwide''"

text \<open>The fields of a Moment that app.js reads, and the \<open>Date\<close> it builds from them.\<close>

record moment =
  m_year :: int
  m_month :: int
  m_date :: int
  m_hours :: int
  m_minute :: int
  m_second :: int

datatype js_date = Date_UTC int int int int int int

text \<open>
  Modelled from the spec: country.js is not among the sources. An accumulator has a name,
  four counters that start at 0 and are changed by additive increments only, and the
  shared time stamp. The name is whatever \<open>setName\<close> was given, \<open>undefined\<close>
  included.
\<close>

record country =
  name :: "string option"
  confirmed :: int
  deaths :: int
  active :: int
  recovered :: int
  lastUpdatedBySourceAt :: "js_date option"

definition Country_new :: country where
  "Country_new = \<lparr>name = Some [], confirmed = 0, deaths = 0, active = 0, recovered = 0,
     lastUpdatedBySourceAt = None\<rparr>"

definition setName :: "country \<Rightarrow> string option \<Rightarrow> country" where
  "setName c n = c\<lparr>name := n\<rparr>"

definition getName :: "country \<Rightarrow> string option" where
  "getName c = name c"

definition setLastUpdatedBySourceAt :: "country \<Rightarrow> js_date \<Rightarrow> country" where
  "setLastUpdatedBySourceAt c t = c\<lparr>lastUpdatedBySourceAt := Some t\<rparr>"

definition incrementDeaths :: "country \<Rightarrow> int \<Rightarrow> country" where
  "incrementDeaths c n = c\<lparr>deaths := deaths c + n\<rparr>"

definition incrementConfirmed :: "country \<Rightarrow> int \<Rightarrow> country" where
  "incrementConfirmed c n = c\<lparr>confirmed := confirmed c + n\<rparr>"

definition incrementActive :: "country \<Rightarrow> int \<Rightarrow> country" where
  "incrementActive c n = c\<lparr>active := active c + n\<rparr>"

definition incrementRecovered :: "country \<Rightarrow> int \<Rightarrow> country" where
  "incrementRecovered c n = c\<lparr>recovered := recovered c + n\<rparr>"

subsection \<open>The object \<open>countryObjects\<close>\<close>

text \<open>
  \<open>this.countryObjects\<close> starts as \<open>{}\<close> and is used as a dictionary from country
  names to accumulators. Its own properties are kept in insertion order. The key
  \<open>__proto__\<close> is not a property: assigning an object to it replaces the prototype, and
  reading it gives the prototype back. Reading any other key that is not an own property
  falls through to the prototype chain, where no accumulator is found; \<open>obj_get\<close>
  answers \<open>None\<close> then, and the method call that follows in app.js raises a TypeError.
\<close>

record js_object =
  own :: "(string \<times> country) list"
  proto :: "country option"

definition obj_empty :: js_object where
  "obj_empty = \<lparr>own = [], proto = None\<rparr>"

definition ToPropertyKey :: "string option \<Rightarrow> string" where
  "ToPropertyKey v = ToString v"

definition obj_get :: "js_object \<Rightarrow> string \<Rightarrow> country option" where
  "obj_get obj k = (if k = ''__proto__'' then proto obj else map_of (own obj) k)"

definition obj_set :: "js_object \<Rightarrow> string \<Rightarrow> country \<Rightarrow> js_object" where
  "obj_set obj k v =
     (if k = ''__proto__'' then obj\<lparr>proto := Some v\<rparr>
      else obj\<lparr>own := AList.update k v (own obj)\<rparr>)"

text \<open>
  \<open>Object.values\<close> lists the own properties: first those whose key is an array index
  (a canonical decimal numeral up to \<open>2^32 - 2\<close>), by ascending index, then the others
  in insertion order.
\<close>

definition isDecimalDigit :: "char \<Rightarrow> bool" where
  "isDecimalDigit c = isRadixDigit 10 c"

definition isArrayIndex :: "string \<Rightarrow> bool" where
  "isArrayIndex k =
     (k \<noteq> [] \<and> list_all isDecimalDigit k \<and> (k = ''0'' \<or> hd k \<noteq> CHR ''0'')
      \<and> length k \<le> 10 \<and> radixValue 10 k \<le> 4294967294)"

definition Object_values :: "js_object \<Rightarrow> country list" where
  "Object_values obj =
     map snd (sort_key (\<lambda>p. radixValue 10 (fst p)) (filter (\<lambda>p. isArrayIndex (fst p)) (own obj)))
     @ map snd (filter (\<lambda>p. \<not> isArrayIndex (fst p)) (own obj))"

section \<open>The App object and its surroundings\<close>

text \<open>
  Everything a run can observe outside the App object is recorded as an event, in the
  order in which app.js causes it.
\<close>

datatype event =
    ConsoleLog string
  | FsMkdir string
  | FsCreateWriteStream string
  | HttpGet string
  | FsUnlink string
  | CsvFromFile string
  | DbConnect
  | DbDropCollection
  | DbInsert country
  | DbClose

text \<open>What a raise of app.js or of one of its collaborators carries.\<close>

datatype js_error =
    TypeError
  | FetchError
  | ENOENT string
  | FileDoesNotExist string
  | CsvError
  | PersistenceError

text \<open>
  The state threaded through the methods: the fields of the App object as the
  constructor declares them, the staging file system, and the event log.
\<close>

record state =
  csvFileName :: string
  csvRows :: "row list"
  countryObjects :: js_object
  totalDeaths :: int
  totalActive :: int
  totalRecovered :: int
  totalConfirmed :: int
  fs_dirs :: "string \<Rightarrow> bool"
  fs_files :: "string \<Rightarrow> string option"
  events :: "event list"

text \<open>The outcome of one HTTP download: the whole body, or a failure that leaves the
  given partial content in the staging file.\<close>

datatype fetch_outcome = Finish string | Reject string

text \<open>A calendar date, as Moment shows the local date.\<close>

record date =
  year :: int
  month :: int
  day :: int

text \<open>
  What the run is given from outside: the two constants of constants.js that the spec
  leaves open, the directory of app.js, the date of the run, the answers of the remote
  source, of csvtojson, of Moment's string parser, and of the database client (mongodb.js
  is not among the sources; each of its calls succeeds or raises as \<open>db_ok\<close> says).
\<close>

record env =
  DATA_URL :: string
  DATA_DIR :: string
  dirname :: string
  today :: date
  source :: "string \<Rightarrow> fetch_outcome"
  CsvToJson :: "string \<Rightarrow> js_error + row list"
  Moment_parse :: "string option \<Rightarrow> moment"
  db_ok :: "event \<Rightarrow> bool"

text \<open>The constructor, on a given file system.\<close>

definition App_new :: "(string \<Rightarrow> bool) \<Rightarrow> (string \<Rightarrow> string option) \<Rightarrow> state" where
  "App_new ds fs =
     \<lparr>csvFileName = [], csvRows = [], countryObjects = obj_empty,
      totalDeaths = 0, totalActive = 0, totalRecovered = 0, totalConfirmed = 0,
      fs_dirs = ds, fs_files = fs, events = []\<rparr>"

definition emit :: "event \<Rightarrow> state \<Rightarrow> state" where
  "emit e s = s\<lparr>events := events s @ [e]\<rparr>"

section \<open>Aggregation\<close>

text \<open>\<open>[...new Set(xs)]\<close>: the first occurrence of every element, in order.\<close>

definition Set_spread :: "'a list \<Rightarrow> 'a list" where
  "Set_spread xs = foldl (\<lambda>acc x. if x \<in> set acc then acc else acc @ [x]) [] xs"

definition getCountryNamesArray :: "state \<Rightarrow> string option list" where
  "getCountryNamesArray s =
     (let countryNames = map (\<lambda>row. row COL_COUNTRY) (csvRows s);
          countryNames = countryNames @ [Some WORLDWIDE]
      in Set_spread countryNames)"

text \<open>
  \<open>this.csvRows[0]\<close> is \<open>undefined\<close> when there is no row, and reading a property
  of it raises a TypeError.
\<close>

definition getLastUpdatedBySourceTime :: "env \<Rightarrow> state \<Rightarrow> (js_error \<times> state) + js_date" where
  "getLastUpdatedBySourceTime E s =
     (case csvRows s of
        [] \<Rightarrow> Inl (TypeError, s)
      | row0 # _ \<Rightarrow>
          (let dateString = row0 COL_LAST_UPDATE;
               date_moment = Moment_parse E dateString
           in Inr (Date_UTC (m_year date_moment) (m_month date_moment) (m_date date_moment)
                     (m_hours date_moment) (m_minute date_moment) (m_second date_moment))))"

definition createCountryObjects :: "env \<Rightarrow> state \<Rightarrow> (js_error \<times> state) + state" where
  "createCountryObjects E s =
     (let countryNames = getCountryNamesArray s in
      case getLastUpdatedBySourceTime E s of
        Inl err \<Rightarrow> Inl err
      | Inr lastUpdatedBySourceTime \<Rightarrow>
          Inr (foldl
                 (\<lambda>s countryName.
                    let country = Country_new;
                        country = setName country countryName;
                        country = setLastUpdatedBySourceAt country lastUpdatedBySourceTime
                    in s\<lparr>countryObjects :=
                           obj_set (countryObjects s) (ToPropertyKey (getName country)) country\<rparr>)
                 s countryNames))"

text \<open>
  The column argument of \<open>getCaseCount\<close> is a one-element array in app.js; as a
  property key it is its only element.
\<close>

definition getCaseCount :: "row \<Rightarrow> string \<Rightarrow> int" where
  "getCaseCount row columnName =
     (let caseValue = (case parseInt (row columnName) of None \<Rightarrow> 0 | Some n \<Rightarrow> n);
          caseValue = (if caseValue < 0 then \<bar>caseValue\<bar> else caseValue)
      in caseValue)"

text \<open>The body of the \<open>forEach\<close> over the rows.\<close>

definition populate_row :: "state \<Rightarrow> row \<Rightarrow> (js_error \<times> state) + state" where
  "populate_row s row =
     (let countryName = row COL_COUNTRY;
          deaths = getCaseCount row COL_DEATHS;
          s = s\<lparr>totalDeaths := totalDeaths s + deaths\<rparr>;
          confirmed = getCaseCount row COL_CONFIRMED;
          s = s\<lparr>totalConfirmed := totalConfirmed s + confirmed\<rparr>;
          active = getCaseCount row COL_ACTIVE;
          s = s\<lparr>totalActive := totalActive s + active\<rparr>;
          recovered = getCaseCount row COL_RECOVERED;
          s = s\<lparr>totalRecovered := totalRecovered s + recovered\<rparr>
      in case obj_get (countryObjects s) (ToPropertyKey countryName) of
           None \<Rightarrow> Inl (TypeError, s)
         | Some country \<Rightarrow>
             (let country = incrementDeaths country deaths;
                  country = incrementConfirmed country confirmed;
                  country = incrementActive country active;
                  country = incrementRecovered country recovered
              in Inr (s\<lparr>countryObjects :=
                          obj_set (countryObjects s) (ToPropertyKey countryName) country\<rparr>)))"

fun forEach_rows :: "(state \<Rightarrow> row \<Rightarrow> (js_error \<times> state) + state) \<Rightarrow> row list \<Rightarrow> state
    \<Rightarrow> (js_error \<times> state) + state" where
  "forEach_rows f [] s = Inr s"
| "forEach_rows f (row # rows) s =
     (case f s row of Inl err \<Rightarrow> Inl err | Inr s' \<Rightarrow> forEach_rows f rows s')"

definition populateCountryObjects :: "state \<Rightarrow> (js_error \<times> state) + state" where
  "populateCountryObjects s =
     (case forEach_rows populate_row (csvRows s) s of
        Inl err \<Rightarrow> Inl err
      | Inr s \<Rightarrow>
          (case obj_get (countryObjects s) WORLDWIDE of
             None \<Rightarrow> Inl (TypeError, s)
           | Some country_worldwide \<Rightarrow>
               (let country_worldwide = incrementDeaths country_worldwide (totalDeaths s);
                    country_worldwide = incrementConfirmed country_worldwide (totalConfirmed s);
                    country_worldwide = incrementActive country_worldwide (totalActive s);
                    country_worldwide = incrementRecovered country_worldwide (totalRecovered s)
                in Inr (s\<lparr>countryObjects :=
                            obj_set (countryObjects s) WORLDWIDE country_worldwide\<rparr>))))"

text \<open>
  Aggregation of a row sequence: \<open>createCountryObjects\<close> and then
  \<open>populateCountryObjects\<close>, as \<open>init\<close> calls them, on an App that holds the rows.
\<close>

definition aggregate :: "env \<Rightarrow> state \<Rightarrow> row list \<Rightarrow> (js_error \<times> state) + state" where
  "aggregate E s rows =
     (case createCountryObjects E (s\<lparr>csvRows := rows\<rparr>) of
        Inl err \<Rightarrow> Inl err
      | Inr s' \<Rightarrow> populateCountryObjects s')"

section \<open>Locating the snapshot\<close>

subsection \<open>Dates and their labels\<close>

text \<open>
  \<open>Moment().subtract(i, 'days')\<close> steps back \<open>i\<close> calendar days from the local date
  of the run; the date of the run is taken as fixed while the run lasts.
\<close>

definition isLeapYear :: "int \<Rightarrow> bool" where
  "isLeapYear y = ((y mod 4 = 0 \<and> y mod 100 \<noteq> 0) \<or> y mod 400 = 0)"

definition daysInMonth :: "int \<Rightarrow> int \<Rightarrow> int" where
  "daysInMonth y m =
     (if m = 2 then (if isLeapYear y then 29 else 28)
      else if m = 4 \<or> m = 6 \<or> m = 9 \<or> m = 11 then 30
      else 31)"

definition prev_day :: "date \<Rightarrow> date" where
  "prev_day d =
     (if 1 < day d then d\<lparr>day := day d - 1\<rparr>
      else if 1 < month d then d\<lparr>month := month d - 1, day := daysInMonth (year d) (month d - 1)\<rparr>
      else \<lparr>year = year d - 1, month = 12, day = 31\<rparr>)"

fun subtract_days :: "date \<Rightarrow> nat \<Rightarrow> date" where
  "subtract_days d 0 = d"
| "subtract_days d (Suc i) = prev_day (subtract_days d i)"

text \<open>The decimal numeral of a natural number, as \<open>'' + n\<close> gives it.\<close>

definition digit_char :: "nat \<Rightarrow> char" where
  "digit_char n = ''0123456789'' ! n"

fun show_nat :: "nat \<Rightarrow> string" where
  "show_nat n = (if n < 10 then [digit_char n] else show_nat (n div 10) @ [digit_char (n mod 10)])"

text \<open>Moment's \<open>zeroFill\<close> and its tokens \<open>MM\<close>, \<open>DD\<close> and \<open>YYYY\<close>.\<close>

definition zeroFill :: "int \<Rightarrow> nat \<Rightarrow> string" where
  "zeroFill number targetLength =
     (let absNumber = show_nat (nat \<bar>number\<bar>);
          zerosToFill = targetLength - length absNumber
      in (if 0 \<le> number then [] else ''-'') @ replicate zerosToFill (CHR ''0'') @ absNumber)"

definition format_MM_DD_YYYY :: "date \<Rightarrow> string" where
  "format_MM_DD_YYYY d =
     zeroFill (month d) 2 @ ''-'' @ zeroFill (day d) 2 @ ''-''
     @ (if year d \<le> 9999 then zeroFill (year d) 4 else ''+'' @ show_nat (nat (year d)))"

text \<open>
  \<open>sprintf(template, arg)\<close> for a template whose only directive is one \<open>%s\<close>: the
  directive is replaced by the argument.
\<close>

fun sprintf :: "string \<Rightarrow> string \<Rightarrow> string" where
  "sprintf [] arg = []"
| "sprintf (c # fmt) arg =
     (if c = CHR ''%'' \<and> take 1 fmt = ''s'' then arg @ tl fmt else c # sprintf fmt arg)"

subsection \<open>Downloading\<close>

text \<open>
  \<open>download\<close> opens the write stream on the staging file, which creates it, and then
  requests the URL. The promise it returns is fulfilled when the body has been written
  and rejected when the request or the writing fails. The stream is taken to have
  created the file by the time the promise settles; it is only called once the staging
  directory exists. A download whose promise never settles is not part of the model.
\<close>

definition download :: "env \<Rightarrow> string \<Rightarrow> state \<Rightarrow> (js_error \<times> state) + state" where
  "download E url s =
     (let pathDataFile = dirname E @ ''/'' @ DATA_DIR E @ ''/'' @ csvFileName s;
          s = emit (FsCreateWriteStream pathDataFile) (s\<lparr>fs_files := (fs_files s)(pathDataFile \<mapsto> [])\<rparr>);
          s = emit (HttpGet url) s
      in case source E url of
           Finish body \<Rightarrow> Inr (s\<lparr>fs_files := (fs_files s)(pathDataFile \<mapsto> body)\<rparr>)
         | Reject partial \<Rightarrow> Inl (FetchError, s\<lparr>fs_files := (fs_files s)(pathDataFile \<mapsto> partial)\<rparr>))"

text \<open>\<open>Fs.unlinkSync\<close> raises when there is no such file.\<close>

definition unlinkSync :: "string \<Rightarrow> state \<Rightarrow> (js_error \<times> state) + state" where
  "unlinkSync path s =
     (let s = emit (FsUnlink path) s in
      case fs_files s path of
        None \<Rightarrow> Inl (ENOENT path, s)
      | Some _ \<Rightarrow> Inr (s\<lparr>fs_files := (fs_files s)(path := None)\<rparr>))"

function downloadCsvFile_loop :: "env \<Rightarrow> nat \<Rightarrow> nat \<Rightarrow> state \<Rightarrow> (js_error \<times> state) + state" where
  "downloadCsvFile_loop E tries i s =
     (if i < tries then
        (let date_string = format_MM_DD_YYYY (subtract_days (today E) i);
             s = s\<lparr>csvFileName := date_string @ ''.csv''\<rparr>;
             url = sprintf (DATA_URL E) (csvFileName s)
         in case download E url s of
              Inr s \<Rightarrow> Inr (emit (ConsoleLog (''Download completed: '' @ csvFileName s)) s)
            | Inl (err, s) \<Rightarrow>
                (let pathFileToDelete = dirname E @ ''/'' @ DATA_DIR E @ ''/'' @ csvFileName s in
                 case unlinkSync pathFileToDelete s of
                   Inl err' \<Rightarrow> Inl err'
                 | Inr s \<Rightarrow> downloadCsvFile_loop E tries (i + 1) s))
      else Inr (emit (ConsoleLog (''Download failed: Unable to find the latest csv file for the last ''
                       @ show_nat tries @ '' days'')) s))"
  by pat_completeness auto
termination
  by (relation "measure (\<lambda>(E, tries, i, s). tries - i)") auto

definition downloadCsvFile :: "env \<Rightarrow> state \<Rightarrow> (js_error \<times> state) + state" where
  "downloadCsvFile E s =
     (let pathDataDir = dirname E @ ''/'' @ DATA_DIR E;
          s = (if \<not> fs_dirs s pathDataDir
               then emit (FsMkdir pathDataDir) (s\<lparr>fs_dirs := (fs_dirs s)(pathDataDir := True)\<rparr>)
               else s);
          tries = 90
      in downloadCsvFile_loop E tries 0 s)"

section \<open>Parsing and persisting\<close>

text \<open>
  \<open>CsvToJson().fromFile(path)\<close> fails when the file does not exist, and otherwise
  gives what csvtojson makes of the content.
\<close>

definition setRowsData :: "env \<Rightarrow> state \<Rightarrow> (js_error \<times> state) + state" where
  "setRowsData E s =
     (let pathDataFile = dirname E @ ''/'' @ DATA_DIR E @ ''/'' @ csvFileName s;
          s = emit (CsvFromFile pathDataFile) s
      in case fs_files s pathDataFile of
           None \<Rightarrow> Inl (FileDoesNotExist pathDataFile, s)
         | Some content \<Rightarrow>
             (case CsvToJson E content of
                Inl err \<Rightarrow> Inl (err, s)
              | Inr rows \<Rightarrow> Inr (s\<lparr>csvRows := rows\<rparr>)))"

text \<open>
  Modelled from the spec: mongodb.js is not among the sources. A call of the persistence
  collaborator (\<open>connect\<close>, \<open>dropCollection\<close>, \<open>insert\<close>, \<open>close\<close>) is an event; it
  returns, or raises a persistence error.
\<close>

definition db_call :: "env \<Rightarrow> event \<Rightarrow> state \<Rightarrow> (js_error \<times> state) + state" where
  "db_call E e s = (let s = emit e s in if db_ok E e then Inr s else Inl (PersistenceError, s))"

fun insert_all :: "env \<Rightarrow> country list \<Rightarrow> state \<Rightarrow> (js_error \<times> state) + state" where
  "insert_all E [] s = Inr s"
| "insert_all E (v # values) s =
     (case db_call E (DbInsert v) s of Inl err \<Rightarrow> Inl err | Inr s \<Rightarrow> insert_all E values s)"

definition saveDataToDb :: "env \<Rightarrow> state \<Rightarrow> (js_error \<times> state) + state" where
  "saveDataToDb E s =
     (case db_call E DbConnect s of
        Inl err \<Rightarrow> Inl err
      | Inr s \<Rightarrow>
          (case db_call E DbDropCollection s of
             Inl err \<Rightarrow> Inl err
           | Inr s \<Rightarrow>
               (let values = Object_values (countryObjects s) in
                case insert_all E values s of
                  Inl err \<Rightarrow> Inl err
                | Inr s \<Rightarrow> db_call E DbClose s)))"

section \<open>The pipeline\<close>

definition init :: "env \<Rightarrow> state \<Rightarrow> (js_error \<times> state) + state" where
  "init E s =
     (let s = emit (ConsoleLog ''Downloading data...'') s in
      case downloadCsvFile E s of
        Inl err \<Rightarrow> Inl err
      | Inr s \<Rightarrow>
          (let s = emit (ConsoleLog ''Saving data to database...'') s in
           case setRowsData E s of
             Inl err \<Rightarrow> Inl err
           | Inr s \<Rightarrow>
               (case createCountryObjects E s of
                  Inl err \<Rightarrow> Inl err
                | Inr s \<Rightarrow>
                    (case populateCountryObjects s of
                       Inl err \<Rightarrow> Inl err
                     | Inr s \<Rightarrow>
                         (case saveDataToDb E s of
                            Inl err \<Rightarrow> Inl err
                          | Inr s \<Rightarrow> Inr (emit (ConsoleLog ''Finished'') s))))))"

section \<open>Notions used to state the properties\<close>

text \<open>The state a run ends in, whether it returned or raised.\<close>

definition final_state :: "(js_error \<times> state) + state \<Rightarrow> state" where
  "final_state r = (case r of Inl (err, s) \<Rightarrow> s | Inr s \<Rightarrow> s)"





text \<open>The row csvtojson builds from a header and the fields of one line.\<close>

definition csv_row :: "string list \<Rightarrow> string list \<Rightarrow> row" where
  "csv_row header cells = map_of (zip header cells)"

definition scenario_header :: "string list" where
  "scenario_header =
     [''Country_Region'', ''Confirmed'', ''Deaths'', ''Recovered'', ''Active'', ''Last_Update'']"

definition scenario_rows :: "row list" where
  "scenario_rows =
     [csv_row scenario_header [''USA'', ''100'', ''5'', ''-50'', ''45'', ''2021-01-01 04:00:00''],
      csv_row scenario_header [''Italy'', ''abc'', ''2'', ''10'', ''18'', ''2021-01-01 04:00:00'']]"

text \<open>The file name, the URL and the staging path of the \<open>i\<close>-th candidate day.\<close>

definition candidate_name :: "env \<Rightarrow> nat \<Rightarrow> string" where
  "candidate_name E i = format_MM_DD_YYYY (subtract_days (today E) i) @ ''.csv''"

definition candidate_url :: "env \<Rightarrow> nat \<Rightarrow> string" where
  "candidate_url E i = sprintf (DATA_URL E) (candidate_name E i)"

definition candidate_path :: "env \<Rightarrow> nat \<Rightarrow> string" where
  "candidate_path E i = dirname E @ ''/'' @ DATA_DIR E @ ''/'' @ candidate_name E i"

definition staging_dir :: "env \<Rightarrow> string" where
  "staging_dir E = dirname E @ ''/'' @ DATA_DIR E"

text \<open>What \<open>downloadCsvFile\<close> logs before its first attempt, on a file system with
  the directories \<open>ds\<close>.\<close>

definition mkdir_events :: "env \<Rightarrow> (string \<Rightarrow> bool) \<Rightarrow> event list" where
  "mkdir_events E ds = (if ds (staging_dir E) then [] else [FsMkdir (staging_dir E)])"

text \<open>What the \<open>i\<close>-th attempt leaves in the event log when its download fails.\<close>

definition failed_attempt :: "env \<Rightarrow> nat \<Rightarrow> event list" where
  "failed_attempt E i =
     [FsCreateWriteStream (candidate_path E i), HttpGet (candidate_url E i),
      FsUnlink (candidate_path E i)]"

text \<open>The event log of \<open>init\<close>, started on an empty log, at the moment csvtojson has
  been given the file of the candidate day \<open>k\<close>, the first whose download succeeded.\<close>

definition located_events :: "env \<Rightarrow> (string \<Rightarrow> bool) \<Rightarrow> nat \<Rightarrow> event list" where
  "located_events E ds k =
     [ConsoleLog ''Downloading data...''] @ mkdir_events E ds
       @ concat (map (failed_attempt E) [0..<k])
       @ [FsCreateWriteStream (candidate_path E k), HttpGet (candidate_url E k),
          ConsoleLog (''Download completed: '' @ candidate_name E k),
          ConsoleLog ''Saving data to database...'',
          CsvFromFile (candidate_path E k)]"




definition http_requests :: "state \<Rightarrow> string list" where
  "http_requests s = concat (map (\<lambda>e. case e of HttpGet url \<Rightarrow> [url] | _ \<Rightarrow> []) (events s))"


definition is_db_event :: "event \<Rightarrow> bool" where
  "is_db_event e =
     (case e of DbConnect \<Rightarrow> True | DbDropCollection \<Rightarrow> True | DbInsert c \<Rightarrow> True
      | DbClose \<Rightarrow> True | _ \<Rightarrow> False)"

definition db_events :: "state \<Rightarrow> event list" where
  "db_events s = filter is_db_event (events s)"


text \<open>
  A concrete run, at which the theorems below are instantiated: the run of 2 January 2021
  against a given remote source, on an empty staging area, with a csvtojson that reads
  the scenario's two rows from any non-empty file.
\<close>

definition demo_moment :: "string option \<Rightarrow> moment" where
  "demo_moment v = \<lparr>m_year = 2021, m_month = 0, m_date = 1, m_hours = 4, m_minute = 0, m_second = 0\<rparr>"

definition demo_csvtojson :: "string \<Rightarrow> js_error + row list" where
  "demo_csvtojson content = (if content = [] then Inr [] else Inr scenario_rows)"

definition demo_env :: "(string \<Rightarrow> fetch_outcome) \<Rightarrow> env" where
  "demo_env src =
     \<lparr>DATA_URL = ''https://example.org/daily_reports/%s'', DATA_DIR = ''data'',
      dirname = ''/app'', today = \<lparr>year = 2021, month = 1, day = 2\<rparr>, source = src,
      CsvToJson = demo_csvtojson, Moment_parse = demo_moment, db_ok = (\<lambda>e. True)\<rparr>"


definition only_day :: "string \<Rightarrow> string \<Rightarrow> string \<Rightarrow> fetch_outcome" where
  "only_day good body url = (if url = good then Finish body else Reject [])"

definition demo_state :: state where
  "demo_state = App_new (\<lambda>p. False) (\<lambda>p. None)"

section \<open>Properties of the aggregation\<close>

lemmas aggregation_defs =
  aggregate_def createCountryObjects_def populateCountryObjects_def populate_row_def
  getCountryNamesArray_def getLastUpdatedBySourceTime_def Set_spread_def getCaseCount_def
  parseInt_def ToString_def ToPropertyKey_def isWhiteSpace_def isRadixDigit_def digitValue_def
  radixValue_def obj_get_def obj_set_def obj_empty_def Country_new_def setName_def getName_def
  setLastUpdatedBySourceAt_def incrementDeaths_def incrementConfirmed_def incrementActive_def
  incrementRecovered_def App_new_def COL_COUNTRY_def COL_CONFIRMED_def COL_DEATHS_def
  COL_RECOVERED_def COL_ACTIVE_def COL_LAST_UPDATE_def WORLDWIDE_def

text \<open>
  Claim C3. For the two rows \<open>USA,100,5,-50,45,2021-01-01 04:00:00\<close> and
  \<open>Italy,abc,2,10,18,2021-01-01 04:00:00\<close> under the header
  \<open>Country_Region,Confirmed,Deaths,Recovered,Active,Last_Update\<close>, aggregation returns,
  and the accumulators it leaves are exactly USA (confirmed 100, deaths 5, recovered 50,
  active 45), Italy (0, 2, 10, 18) and Worldwide (100, 7, 60, 63), each stamped with the
  time read from the first row.
\<close>

theorem scenario_yields:
  "map_sum fst countryObjects (aggregate E (App_new ds fs) scenario_rows) =
     (let t = Moment_parse E (Some ''2021-01-01 04:00:00'');
          stamp = Some (Date_UTC (m_year t) (m_month t) (m_date t)
                          (m_hours t) (m_minute t) (m_second t))
      in Inr \<lparr>own =
           [(''USA'', \<lparr>name = Some ''USA'', confirmed = 100, deaths = 5, active = 45,
                recovered = 50, lastUpdatedBySourceAt = stamp\<rparr>),
            (''Italy'', \<lparr>name = Some ''Italy'', confirmed = 0, deaths = 2, active = 18,
                recovered = 10, lastUpdatedBySourceAt = stamp\<rparr>),
            (''Worldwide'', \<lparr>name = Some ''Worldwide'', confirmed = 100, deaths = 7,
                active = 63, recovered = 60, lastUpdatedBySourceAt = stamp\<rparr>)],
         proto = None\<rparr>)"
  by (simp add: aggregation_defs scenario_rows_def scenario_header_def csv_row_def Let_def)

subsection \<open>Reading a count field\<close>










subsection \<open>Accumulators under updates\<close>






subsection \<open>getCaseCount\<close>


subsection \<open>accumulators\<close>



subsection \<open>Set_spread\<close>



subsection \<open>createCountryObjects\<close>




subsection \<open>populateCountryObjects\<close>




subsection \<open>Aggregation never fails on a non-empty row sequence\<close>

















section \<open>Properties of the snapshot locator\<close>

subsection \<open>Dates and their labels\<close>

declare show_nat.simps [simp del]



























subsection \<open>The loop over the candidate days\<close>

declare downloadCsvFile_loop.simps [simp del]

lemma loop_step_finish:
  assumes "i < tries" and "source E (candidate_url E i) = Finish body"
  shows "downloadCsvFile_loop E tries i s =
           Inr (s\<lparr>csvFileName := candidate_name E i,
                  fs_files := (fs_files s)(candidate_path E i \<mapsto> body),
                  events := events s @ [FsCreateWriteStream (candidate_path E i), HttpGet (candidate_url E i),
                      ConsoleLog (''Download completed: '' @ candidate_name E i)]\<rparr>)"
  using assms
  by (subst downloadCsvFile_loop.simps, cases s)
     (simp add: download_def emit_def Let_def candidate_url_def candidate_name_def candidate_path_def)

lemma loop_step_reject:
  assumes "i < tries" and "source E (candidate_url E i) = Reject partial"
  shows "downloadCsvFile_loop E tries i s =
           downloadCsvFile_loop E tries (Suc i)
             (s\<lparr>csvFileName := candidate_name E i,
                fs_files := (fs_files s)(candidate_path E i := None),
                events := events s @ failed_attempt E i\<rparr>)"
  using assms
  by (subst downloadCsvFile_loop.simps, cases s)
     (simp add: download_def unlinkSync_def emit_def Let_def candidate_url_def candidate_name_def
        candidate_path_def failed_attempt_def)


lemma loop_rejects:
  assumes "\<forall>j. i \<le> j \<and> j < i + n \<longrightarrow> (\<exists>partial. source E (candidate_url E j) = Reject partial)"
      and "i + n \<le> tries"
  shows "downloadCsvFile_loop E tries i s =
           downloadCsvFile_loop E tries (i + n)
             (s\<lparr>csvFileName := (if n = 0 then csvFileName s else candidate_name E (i + n - 1)),
                fs_files := (\<lambda>p. if p \<in> candidate_path E ` {i..<i + n} then None else fs_files s p),
                events := events s @ concat (map (failed_attempt E) [i..<i + n])\<rparr>)"
  using assms
proof (induction n arbitrary: s)
  case 0
  show ?case by (cases s) simp
next
  case (Suc n)
  have prev: "\<forall>j. i \<le> j \<and> j < i + n \<longrightarrow> (\<exists>partial. source E (candidate_url E j) = Reject partial)"
    using Suc.prems(1) by simp
  have le: "i + n \<le> tries" "i + n < tries" using Suc.prems(2) by simp_all
  from Suc.prems(1) obtain partial where rj: "source E (candidate_url E (i + n)) = Reject partial"
    by (metis le_add1 lessI add_Suc_right)
  have fs: "(\<lambda>p. if p \<in> candidate_path E ` {i..<i + n} then None else fs_files s p)(candidate_path E (i + n) := None)
      = (\<lambda>p. if p \<in> candidate_path E ` {i..<i + Suc n} then None else fs_files s p)"
    by (auto simp: fun_eq_iff less_Suc_eq)
  show ?case
    unfolding Suc.IH[OF prev le(1)] loop_step_reject[OF le(2) rj]
    by (cases s) (simp add: fs del: fun_upd_apply)
qed



lemma download_first_success:
  assumes k: "k < 90"
      and fin: "source E (candidate_url E k) = Finish body"
      and rej: "\<forall>j<k. \<exists>partial. source E (candidate_url E j) = Reject partial"
  shows "downloadCsvFile E s =
           Inr (s\<lparr>csvFileName := candidate_name E k,
                  fs_dirs := (fs_dirs s)(staging_dir E := True),
                  fs_files := (\<lambda>p. if p = candidate_path E k then Some body
                                     else if p \<in> candidate_path E ` {0..<k} then None
                                     else fs_files s p),
                  events := events s @ mkdir_events E (fs_dirs s)
                      @ concat (map (failed_attempt E) [0..<k])
                      @ [FsCreateWriteStream (candidate_path E k), HttpGet (candidate_url E k),
                         ConsoleLog (''Download completed: '' @ candidate_name E k)]\<rparr>)"
proof -
  define s0 where "s0 = (if \<not> fs_dirs s (staging_dir E)
      then emit (FsMkdir (staging_dir E)) (s\<lparr>fs_dirs := (fs_dirs s)(staging_dir E := True)\<rparr>) else s)"
  have d: "downloadCsvFile E s = downloadCsvFile_loop E 90 0 s0"
    by (simp add: downloadCsvFile_def s0_def staging_dir_def Let_def)
  have r: "\<forall>j. 0 \<le> j \<and> j < 0 + k \<longrightarrow> (\<exists>partial. source E (candidate_url E j) = Reject partial)"
    using rej by simp
  have le: "0 + k \<le> 90" using k by simp
  have dirs: "fs_dirs s (staging_dir E) \<Longrightarrow> (fs_dirs s)(staging_dir E := True) = fs_dirs s"
    by (auto simp: fun_eq_iff)
  show ?thesis
    unfolding d loop_rejects[OF r le] using loop_step_finish[OF k fin] dirs
    by (cases s) (auto simp: s0_def emit_def mkdir_events_def fun_eq_iff)
qed



subsection \<open>Reading the event log\<close>

lemma http_requests_append: "http_requests (s\<lparr>events := es @ es'\<rparr>)
    = http_requests (s\<lparr>events := es\<rparr>) @ http_requests (s\<lparr>events := es'\<rparr>)"
  by (simp add: http_requests_def)

lemma http_of_failed_attempts:
  "concat (map (\<lambda>e. case e of HttpGet url \<Rightarrow> [url] | _ \<Rightarrow> []) (concat (map (failed_attempt E) js)))
     = map (candidate_url E) js"
  by (induction js) (simp_all add: failed_attempt_def)

lemma db_of_failed_attempts: "filter is_db_event (concat (map (failed_attempt E) js)) = []"
  by (induction js) (simp_all add: failed_attempt_def is_db_event_def)




lemma http_of_mkdir: "concat (map (\<lambda>e. case e of HttpGet url \<Rightarrow> [url] | _ \<Rightarrow> []) (mkdir_events E ds)) = []"
  by (simp add: mkdir_events_def)

lemma db_of_mkdir: "filter is_db_event (mkdir_events E ds) = []"
  by (simp add: mkdir_events_def is_db_event_def)


lemma http_requests_first_success:
  "http_requests (s\<lparr>events := es @ mkdir_events E ds @ concat (map (failed_attempt E) [0..<k])
       @ [FsCreateWriteStream (candidate_path E k), HttpGet (candidate_url E k), ConsoleLog msg]\<rparr>)
   = http_requests (s\<lparr>events := es\<rparr>) @ map (candidate_url E) [0..<Suc k]"
  by (simp add: http_requests_def http_of_failed_attempts http_of_mkdir)

lemma http_requests_all_rejected:
  "http_requests (s\<lparr>events := es @ mkdir_events E ds @ concat (map (failed_attempt E) [0..<n])
       @ [ConsoleLog msg]\<rparr>)
   = http_requests (s\<lparr>events := es\<rparr>) @ map (candidate_url E) [0..<n]"
  by (simp add: http_requests_def http_of_failed_attempts http_of_mkdir)

lemma http_requests_App_new: "http_requests ((App_new ds fs)\<lparr>events := []\<rparr>) = []"
  by (simp add: http_requests_def)


subsection \<open>The demonstration run\<close>

lemma demo_names:
  "candidate_name (demo_env src) 0 = ''01-02-2021.csv''"
  "candidate_name (demo_env src) 1 = ''01-01-2021.csv''"
  "candidate_name (demo_env src) (Suc 0) = ''01-01-2021.csv''"
  "candidate_name (demo_env src) 2 = ''12-31-2020.csv''"
  "candidate_name (demo_env src) 3 = ''12-30-2020.csv''"
  "candidate_name (demo_env src) 89 = ''10-05-2020.csv''"
  by code_simp+


lemma demo_urls:
  "candidate_url (demo_env src) i = ''https://example.org/daily_reports/'' @ candidate_name (demo_env src) i"
  "candidate_path (demo_env src) i = ''/app/data/'' @ candidate_name (demo_env src) i"
  by (simp_all add: candidate_url_def candidate_path_def demo_env_def)


lemma App_new_fields:
  "fs_dirs (App_new ds fs) = ds" "fs_files (App_new ds fs) = fs" "events (App_new ds fs) = []"
  "countryObjects (App_new ds fs) = obj_empty" "csvRows (App_new ds fs) = []"
  by (simp_all add: App_new_def)

lemma db_events_simps:
  "db_events (s\<lparr>events := es\<rparr>) = filter is_db_event es"
  by (simp add: db_events_def)

lemma upt_0_3: "[0..<3] = [0, 1, 2]"
  by (simp add: upt_rec numeral_3_eq_3)











lemma demo_only_today:
  "source (demo_env (only_day ''https://example.org/daily_reports/01-02-2021.csv'' body))
      (candidate_url (demo_env (only_day ''https://example.org/daily_reports/01-02-2021.csv'' body)) 0)
     = Finish body"
  "\<forall>j<0. \<exists>partial. source (demo_env (only_day ''https://example.org/daily_reports/01-02-2021.csv'' body))
      (candidate_url (demo_env (only_day ''https://example.org/daily_reports/01-02-2021.csv'' body)) j)
     = Reject partial"
proof -
  let ?E = "demo_env (only_day ''https://example.org/daily_reports/01-02-2021.csv'' body)"
  have s: "source ?E = only_day ''https://example.org/daily_reports/01-02-2021.csv'' body"
    by (simp add: demo_env_def)
  show "source ?E (candidate_url ?E 0) = Finish body"
    unfolding s by (simp add: demo_urls demo_names only_day_def)
  show "\<forall>j<0. \<exists>partial. source ?E (candidate_url ?E j) = Reject partial" by simp
qed

lemma demo_CsvToJson: "CsvToJson (demo_env src) = demo_csvtojson" "db_ok (demo_env src) e"
  by (simp_all add: demo_env_def)

subsection \<open>The pipeline\<close>

lemma aggregate_empty: "aggregate E s [] = Inl (TypeError, s\<lparr>csvRows := []\<rparr>)"
  by (simp add: aggregate_def createCountryObjects_def getLastUpdatedBySourceTime_def Let_def)

lemma aggregate_as_init_calls:
  "(case createCountryObjects E (s\<lparr>csvRows := rows\<rparr>) of
      Inl err \<Rightarrow> Inl err
    | Inr s \<Rightarrow> (case populateCountryObjects s of Inl err \<Rightarrow> Inl err | Inr s \<Rightarrow> f s))
   = (case aggregate E s rows of Inl err \<Rightarrow> Inl err | Inr s \<Rightarrow> f s)"
  by (simp add: aggregate_def split: sum.splits)

subsection \<open>saveDataToDb\<close>

lemma db_call_events:
  "is_db_event e \<Longrightarrow>
   \<exists>dbs. events (final_state (db_call E e s)) = events s @ dbs \<and> list_all is_db_event dbs \<and> dbs = [e]"
  by (simp add: db_call_def emit_def final_state_def Let_def)



subsection \<open>init\<close>


lemma init_located:
  assumes k: "k < 90"
      and fin: "source E (candidate_url E k) = Finish body"
      and rej: "\<forall>j<k. \<exists>partial. source E (candidate_url E j) = Reject partial"
  shows "init E s =
     (let s1 = s\<lparr>csvFileName := candidate_name E k,
                  fs_dirs := (fs_dirs s)(staging_dir E := True),
                  fs_files := (\<lambda>p. if p = candidate_path E k then Some body
                                     else if p \<in> candidate_path E ` {0..<k} then None
                                     else fs_files s p),
                  events := events s @ [ConsoleLog ''Downloading data...''] @ mkdir_events E (fs_dirs s)
                      @ concat (map (failed_attempt E) [0..<k])
                      @ [FsCreateWriteStream (candidate_path E k), HttpGet (candidate_url E k),
                         ConsoleLog (''Download completed: '' @ candidate_name E k),
                         ConsoleLog ''Saving data to database...'',
                         CsvFromFile (candidate_path E k)]\<rparr>
      in case CsvToJson E body of
           Inl err \<Rightarrow> Inl (err, s1)
         | Inr rows \<Rightarrow>
             (case aggregate E s1 rows of
                Inl err \<Rightarrow> Inl err
              | Inr s3 \<Rightarrow>
                  (case saveDataToDb E s3 of
                     Inl err \<Rightarrow> Inl err
                   | Inr s4 \<Rightarrow> Inr (emit (ConsoleLog ''Finished'') s4))))"
proof -
  define s0 where "s0 = emit (ConsoleLog ''Downloading data...'') s"
  define s1 where "s1 = s\<lparr>csvFileName := candidate_name E k,
                  fs_dirs := (fs_dirs s)(staging_dir E := True),
                  fs_files := (\<lambda>p. if p = candidate_path E k then Some body
                                     else if p \<in> candidate_path E ` {0..<k} then None
                                     else fs_files s p),
                  events := events s @ [ConsoleLog ''Downloading data...''] @ mkdir_events E (fs_dirs s)
                      @ concat (map (failed_attempt E) [0..<k])
                      @ [FsCreateWriteStream (candidate_path E k), HttpGet (candidate_url E k),
                         ConsoleLog (''Download completed: '' @ candidate_name E k),
                         ConsoleLog ''Saving data to database...'',
                         CsvFromFile (candidate_path E k)]\<rparr>"
  obtain sd where d: "downloadCsvFile E s0 = Inr sd"
    and sd: "setRowsData E (emit (ConsoleLog ''Saving data to database...'') sd)
        = (case CsvToJson E body of Inl err \<Rightarrow> Inl (err, s1) | Inr rows \<Rightarrow> Inr (s1\<lparr>csvRows := rows\<rparr>))"
  proof
    show "downloadCsvFile E s0 = Inr (s0\<lparr>csvFileName := candidate_name E k,
                  fs_dirs := (fs_dirs s0)(staging_dir E := True),
                  fs_files := (\<lambda>p. if p = candidate_path E k then Some body
                                     else if p \<in> candidate_path E ` {0..<k} then None
                                     else fs_files s0 p),
                  events := events s0 @ mkdir_events E (fs_dirs s0)
                      @ concat (map (failed_attempt E) [0..<k])
                      @ [FsCreateWriteStream (candidate_path E k), HttpGet (candidate_url E k),
                         ConsoleLog (''Download completed: '' @ candidate_name E k)]\<rparr>)"
      by (rule download_first_success[OF k fin rej])
    show "setRowsData E (emit (ConsoleLog ''Saving data to database...'')
            (s0\<lparr>csvFileName := candidate_name E k,
                  fs_dirs := (fs_dirs s0)(staging_dir E := True),
                  fs_files := (\<lambda>p. if p = candidate_path E k then Some body
                                     else if p \<in> candidate_path E ` {0..<k} then None
                                     else fs_files s0 p),
                  events := events s0 @ mkdir_events E (fs_dirs s0)
                      @ concat (map (failed_attempt E) [0..<k])
                      @ [FsCreateWriteStream (candidate_path E k), HttpGet (candidate_url E k),
                         ConsoleLog (''Download completed: '' @ candidate_name E k)]\<rparr>))
        = (case CsvToJson E body of Inl err \<Rightarrow> Inl (err, s1) | Inr rows \<Rightarrow> Inr (s1\<lparr>csvRows := rows\<rparr>))"
      by (cases s; cases "CsvToJson E body")
         (simp_all add: s0_def s1_def emit_def setRowsData_def candidate_path_def Let_def cong: if_cong)
  qed
  have "init E s =
     (case CsvToJson E body of
           Inl err \<Rightarrow> Inl (err, s1)
         | Inr rows \<Rightarrow>
             (case aggregate E s1 rows of
                Inl err \<Rightarrow> Inl err
              | Inr s3 \<Rightarrow>
                  (case saveDataToDb E s3 of
                     Inl err \<Rightarrow> Inl err
                   | Inr s4 \<Rightarrow> Inr (emit (ConsoleLog ''Finished'') s4))))"
  proof (cases "CsvToJson E body")
    case (Inl err)
    then show ?thesis
      using d sd by (simp add: init_def Let_def s0_def[symmetric])
  next
    case (Inr rows)
    then show ?thesis
      using d sd
      by (cases "createCountryObjects E (s1\<lparr>csvRows := rows\<rparr>)")
         (simp_all add: init_def Let_def s0_def[symmetric] aggregate_def)
  qed
  then show ?thesis unfolding Let_def s1_def .
qed

text \<open>Aggregation neither reads nor changes the file name, the file system and the log.\<close>

lemma populate_row_frame:
  "populate_row (s\<lparr>csvFileName := n, fs_dirs := d, fs_files := f, events := ev\<rparr>) row
     = map_sum (\<lambda>(err, t). (err, t\<lparr>csvFileName := n, fs_dirs := d, fs_files := f, events := ev\<rparr>))
               (\<lambda>t. t\<lparr>csvFileName := n, fs_dirs := d, fs_files := f, events := ev\<rparr>)
               (populate_row s row)"
  by (cases s) (simp add: populate_row_def Let_def split: option.splits)

lemma forEach_rows_frame:
  "forEach_rows populate_row rows (s\<lparr>csvFileName := n, fs_dirs := d, fs_files := f, events := ev\<rparr>)
     = map_sum (\<lambda>(err, t). (err, t\<lparr>csvFileName := n, fs_dirs := d, fs_files := f, events := ev\<rparr>))
               (\<lambda>t. t\<lparr>csvFileName := n, fs_dirs := d, fs_files := f, events := ev\<rparr>)
               (forEach_rows populate_row rows s)"
proof (induction rows arbitrary: s)
  case Nil
  show ?case by simp
next
  case (Cons row rows)
  show ?case
    by (cases "populate_row s row") (auto simp: populate_row_frame Cons.IH)
qed

lemma populateCountryObjects_frame:
  "populateCountryObjects (s\<lparr>csvFileName := n, fs_dirs := d, fs_files := f, events := ev\<rparr>)
     = map_sum (\<lambda>(err, t). (err, t\<lparr>csvFileName := n, fs_dirs := d, fs_files := f, events := ev\<rparr>))
               (\<lambda>t. t\<lparr>csvFileName := n, fs_dirs := d, fs_files := f, events := ev\<rparr>)
               (populateCountryObjects s)"
proof (cases "forEach_rows populate_row (csvRows s) s")
  case (Inl a)
  then show ?thesis
    by (cases a) (simp add: populateCountryObjects_def forEach_rows_frame)
next
  case (Inr t)
  then show ?thesis
    by (cases t) (simp add: populateCountryObjects_def forEach_rows_frame Let_def split: option.splits)
qed

lemma create_fold_frame:
  fixes k :: "string option \<Rightarrow> string" and mk :: "string option \<Rightarrow> country"
    and n :: string and d :: "string \<Rightarrow> bool" and f :: "string \<Rightarrow> string option" and ev :: "event list"
  defines "step \<equiv> (\<lambda>s countryName. s\<lparr>countryObjects := obj_set (countryObjects s) (k countryName) (mk countryName)\<rparr>)"
  defines "g \<equiv> (\<lambda>t. t\<lparr>csvFileName := n, fs_dirs := d, fs_files := f, events := ev\<rparr>)"
  shows "foldl step (g s) ns = g (foldl step s ns)"
proof (induction ns arbitrary: s)
  case Nil
  show ?case by simp
next
  case (Cons a ns)
  have "step (g s) a = g (step s a)" by (cases s) (simp add: step_def g_def)
  then show ?case using Cons.IH[of "step s a"] by simp
qed

lemma createCountryObjects_frame:
  "createCountryObjects E (s\<lparr>csvFileName := n, fs_dirs := d, fs_files := f, events := ev\<rparr>)
     = map_sum (\<lambda>(err, t). (err, t\<lparr>csvFileName := n, fs_dirs := d, fs_files := f, events := ev\<rparr>))
               (\<lambda>t. t\<lparr>csvFileName := n, fs_dirs := d, fs_files := f, events := ev\<rparr>)
               (createCountryObjects E s)"
proof (cases "csvRows s")
  case Nil
  then show ?thesis
    by (simp add: createCountryObjects_def getLastUpdatedBySourceTime_def Let_def)
next
  case (Cons row0 rest)
  then show ?thesis
    by (simp add: createCountryObjects_def getLastUpdatedBySourceTime_def getCountryNamesArray_def
        Let_def create_fold_frame)
qed

lemma aggregate_frame:
  "aggregate E (s\<lparr>csvFileName := n, fs_dirs := d, fs_files := f, events := ev\<rparr>) rows
     = map_sum (\<lambda>(err, t). (err, t\<lparr>csvFileName := n, fs_dirs := d, fs_files := f, events := ev\<rparr>))
               (\<lambda>t. t\<lparr>csvFileName := n, fs_dirs := d, fs_files := f, events := ev\<rparr>)
               (aggregate E s rows)"
proof -
  have c: "s\<lparr>csvFileName := n, fs_dirs := d, fs_files := f, events := ev, csvRows := rows\<rparr>
      = s\<lparr>csvRows := rows\<rparr>\<lparr>csvFileName := n, fs_dirs := d, fs_files := f, events := ev\<rparr>"
    by (cases s) simp
  show ?thesis
  proof (cases "createCountryObjects E (s\<lparr>csvRows := rows\<rparr>)")
    case (Inl a)
    then show ?thesis
      by (cases a) (simp add: aggregate_def c createCountryObjects_frame)
  next
    case (Inr t)
    then show ?thesis
      by (simp add: aggregate_def c createCountryObjects_frame populateCountryObjects_frame)
  qed
qed

subsection \<open>The outcomes of init\<close>







lemma db_located: "filter is_db_event (located_events E ds k) = []"
  by (simp add: located_events_def db_of_failed_attempts db_of_mkdir is_db_event_def)

lemma init_located_App_new:
  assumes k: "k < 90"
      and fin: "source E (candidate_url E k) = Finish body"
      and rej: "\<forall>j<k. \<exists>partial. source E (candidate_url E j) = Reject partial"
  shows "\<exists>s1. events s1 = located_events E ds k \<and> countryObjects s1 = obj_empty
          \<and> (\<forall>rows. aggregate E s1 rows
                = map_sum (\<lambda>(err, t). (err, t\<lparr>csvFileName := csvFileName s1, fs_dirs := fs_dirs s1,
                                               fs_files := fs_files s1, events := events s1\<rparr>))
                          (\<lambda>t. t\<lparr>csvFileName := csvFileName s1, fs_dirs := fs_dirs s1,
                                 fs_files := fs_files s1, events := events s1\<rparr>)
                          (aggregate E (App_new ds fs) rows))
          \<and> init E (App_new ds fs) =
              (case CsvToJson E body of
                 Inl err \<Rightarrow> Inl (err, s1)
               | Inr rows \<Rightarrow>
                   (case aggregate E s1 rows of
                      Inl err \<Rightarrow> Inl err
                    | Inr s3 \<Rightarrow>
                        (case saveDataToDb E s3 of
                           Inl err \<Rightarrow> Inl err
                         | Inr s4 \<Rightarrow> Inr (emit (ConsoleLog ''Finished'') s4))))"
proof -
  define s1 where "s1 = (App_new ds fs)\<lparr>csvFileName := candidate_name E k,
                  fs_dirs := (fs_dirs (App_new ds fs))(staging_dir E := True),
                  fs_files := (\<lambda>p. if p = candidate_path E k then Some body
                                     else if p \<in> candidate_path E ` {0..<k} then None
                                     else fs_files (App_new ds fs) p),
                  events := events (App_new ds fs) @ [ConsoleLog ''Downloading data...'']
                      @ mkdir_events E (fs_dirs (App_new ds fs))
                      @ concat (map (failed_attempt E) [0..<k])
                      @ [FsCreateWriteStream (candidate_path E k), HttpGet (candidate_url E k),
                         ConsoleLog (''Download completed: '' @ candidate_name E k),
                         ConsoleLog ''Saving data to database...'',
                         CsvFromFile (candidate_path E k)]\<rparr>"
  have i: "init E (App_new ds fs) =
              (case CsvToJson E body of
                 Inl err \<Rightarrow> Inl (err, s1)
               | Inr rows \<Rightarrow>
                   (case aggregate E s1 rows of
                      Inl err \<Rightarrow> Inl err
                    | Inr s3 \<Rightarrow>
                        (case saveDataToDb E s3 of
                           Inl err \<Rightarrow> Inl err
                         | Inr s4 \<Rightarrow> Inr (emit (ConsoleLog ''Finished'') s4))))"
    using init_located[OF k fin rej, of "App_new ds fs"] unfolding Let_def s1_def .
  have e: "events s1 = located_events E ds k" "countryObjects s1 = obj_empty"
    by (simp_all add: s1_def located_events_def App_new_fields)
  have "aggregate E s1 rows
                = map_sum (\<lambda>(err, t). (err, t\<lparr>csvFileName := csvFileName s1, fs_dirs := fs_dirs s1,
                                               fs_files := fs_files s1, events := events s1\<rparr>))
                          (\<lambda>t. t\<lparr>csvFileName := csvFileName s1, fs_dirs := fs_dirs s1,
                                 fs_files := fs_files s1, events := events s1\<rparr>)
                          (aggregate E (App_new ds fs) rows)" for rows
  proof -
    have "s1 = (App_new ds fs)\<lparr>csvFileName := csvFileName s1, fs_dirs := fs_dirs s1,
                                               fs_files := fs_files s1, events := events s1\<rparr>"
      by (simp add: s1_def)
    then have "aggregate E s1 rows = aggregate E ((App_new ds fs)\<lparr>csvFileName := csvFileName s1, fs_dirs := fs_dirs s1,
                                               fs_files := fs_files s1, events := events s1\<rparr>) rows"
      by simp
    then show ?thesis unfolding aggregate_frame .
  qed
  with i e show ?thesis by blast
qed

lemma db_events_located_state:
  "events s1 = located_events E ds k \<Longrightarrow> db_events (s1\<lparr>csvRows := rows\<rparr>) = [] \<and> db_events s1 = []"
  by (simp add: db_events_def db_located)

section \<open>The claims about the locator and the pipeline\<close>











text \<open>
  Claim C8. On zero rows aggregation raises (the TypeError of reading a column of the
  missing first row) and leaves no accumulator. When the located file parses to zero
  rows, \<open>init\<close> ends with that error: \<open>countryObjects\<close> is still empty, there is no
  all-zero Worldwide accumulator, and the persistence collaborator is never called.
\<close>

theorem empty_snapshot_is_a_failure:
  "aggregate E s [] = Inl (TypeError, s\<lparr>csvRows := []\<rparr>)
   \<and> (k < 90 \<and> source E (candidate_url E k) = Finish body
        \<and> (\<forall>j<k. \<exists>partial. source E (candidate_url E j) = Reject partial)
        \<and> CsvToJson E body = Inr []
      \<longrightarrow> (\<exists>s'. init E (App_new ds fs) = Inl (TypeError, s')
             \<and> csvRows s' = [] \<and> countryObjects s' = obj_empty \<and> db_events s' = []))"
proof (intro conjI impI)
  show "aggregate E s [] = Inl (TypeError, s\<lparr>csvRows := []\<rparr>)" by (rule aggregate_empty)
next
  assume a: "k < 90 \<and> source E (candidate_url E k) = Finish body
        \<and> (\<forall>j<k. \<exists>partial. source E (candidate_url E j) = Reject partial)
        \<and> CsvToJson E body = Inr []"
  then have k: "k < 90" "source E (candidate_url E k) = Finish body"
      "\<forall>j<k. \<exists>partial. source E (candidate_url E j) = Reject partial"
    and p: "CsvToJson E body = Inr []" by simp_all
  from init_located_App_new[OF k, of ds fs] obtain s1 where s1:
    "events s1 = located_events E ds k" "countryObjects s1 = obj_empty"
    "init E (App_new ds fs) =
              (case CsvToJson E body of
                 Inl err \<Rightarrow> Inl (err, s1)
               | Inr rows \<Rightarrow>
                   (case aggregate E s1 rows of
                      Inl err \<Rightarrow> Inl err
                    | Inr s3 \<Rightarrow>
                        (case saveDataToDb E s3 of
                           Inl err \<Rightarrow> Inl err
                         | Inr s4 \<Rightarrow> Inr (emit (ConsoleLog ''Finished'') s4))))"
    by blast
  have "init E (App_new ds fs) = Inl (TypeError, s1\<lparr>csvRows := []\<rparr>)"
    unfolding s1(3) p by (simp add: aggregate_empty)
  moreover have "db_events (s1\<lparr>csvRows := []\<rparr>) = []"
    using db_events_located_state[OF s1(1)] by simp
  ultimately show "\<exists>s'. init E (App_new ds fs) = Inl (TypeError, s')
             \<and> csvRows s' = [] \<and> countryObjects s' = obj_empty \<and> db_events s' = []"
    using s1(2) by simp
qed

text \<open>
  The theorem at a run whose first download succeeds with an empty file.
\<close>

theorem empty_snapshot_is_a_failure_witness:
  "\<exists>s'. init (demo_env (only_day ''https://example.org/daily_reports/01-02-2021.csv'' [])) demo_state
           = Inl (TypeError, s')
        \<and> csvRows s' = [] \<and> countryObjects s' = obj_empty \<and> db_events s' = []"
  using empty_snapshot_is_a_failure[of
      "demo_env (only_day ''https://example.org/daily_reports/01-02-2021.csv'' [])" demo_state
      0 "[]" "\<lambda>p. False" "\<lambda>p. None"]
    demo_only_today[of "[]"]
  by (simp add: demo_state_def demo_CsvToJson demo_csvtojson_def)

subsection \<open>The order of the stages\<close>









end
